theory Spec2Isabelle
  imports Complex_Main "HOL-Library.Sublist"
begin

section \<open>JavaScript numbers\<close>

text \<open>
  The rules module (\<open>src/logic/rules.ts\<close>) computes with JavaScript numbers, that is
  with IEEE-754 binary64 values. A number is modelled as \<open>NaN\<close>, one of the two
  infinities, or a finite real; every arithmetic operation on finite operands rounds its
  exact result to the nearest binary64 value (ties to even, gradual underflow, overflow to
  infinity) through \<open>dbl\<close>. The sign of zero is not modelled: \<open>+0\<close> and \<open>-0\<close> are
  both \<open>Fin 0\<close>. No operation of the module can tell them apart on the paths modelled
  here (it never divides by a number that can be zero, and never prints a zero).
\<close>

datatype number = NaN | NegInf | Fin real | PosInf

text \<open>The binary exponent \<open>\<lfloor>log\<^sub>2 x\<rfloor>\<close> of a positive real, by repeated halving and doubling.\<close>

function ilog2 :: "real \<Rightarrow> int" where
  "ilog2 x = (if x \<le> 0 then 0
              else if 2 \<le> x then ilog2 (x / 2) + 1
              else if x < 1 then ilog2 (2 * x) - 1
              else 0)"
  by pat_completeness auto
termination
proof (relation "measure (\<lambda>x. nat \<bar>\<lfloor>log 2 x\<rfloor>\<bar>)")
  show "wf (measure (\<lambda>x. nat \<bar>\<lfloor>log 2 x\<rfloor>\<bar>))" by simp
next
  fix x :: real assume a: "\<not> x \<le> 0" "2 \<le> x"
  have "log 2 (x / 2) = log 2 x - 1" using a by (simp add: log_divide)
  moreover have "1 \<le> log 2 x" using a by (simp add: le_log_iff)
  ultimately show "(x / 2, x) \<in> measure (\<lambda>x. nat \<bar>\<lfloor>log 2 x\<rfloor>\<bar>)"
    by (simp add: le_floor_iff)
next
  fix x :: real assume a: "\<not> x \<le> 0" "\<not> 2 \<le> x" "x < 1"
  have l: "log 2 (2 * x) = 1 + log 2 x" using a by (simp add: log_mult)
  have "log 2 x < 0" using a by simp
  then have f: "\<lfloor>log 2 x\<rfloor> \<le> - 1" by (simp add: floor_le_iff)
  have "\<lfloor>log 2 (2 * x)\<rfloor> = 1 + \<lfloor>log 2 x\<rfloor>" unfolding l by simp
  with f show "(2 * x, x) \<in> measure (\<lambda>x. nat \<bar>\<lfloor>log 2 x\<rfloor>\<bar>)"
    unfolding in_measure by linarith
qed

declare ilog2.simps [simp del]

text \<open>Round a real to the nearest integer, ties to the even one.\<close>

definition rne :: "real \<Rightarrow> int" where
  "rne x = (let f = \<lfloor>x\<rfloor>; d = x - of_int f
            in if d < 1 / 2 then f
               else if 1 / 2 < d then f + 1
               else if even f then f else f + 1)"

text \<open>
  The exponent of the unit in the last place of a binary64 value near \<open>x\<close>: 53 significant
  bits, and never below the subnormal spacing \<open>2\<^sup>-\<^sup>1\<^sup>0\<^sup>7\<^sup>4\<close>.
\<close>

definition ulp_exp :: "real \<Rightarrow> int" where
  "ulp_exp x = max (ilog2 \<bar>x\<bar> - 52) (- 1074)"

text \<open>The finite value \<open>x\<close> rounds to, before the overflow test.\<close>

definition rd :: "real \<Rightarrow> real" where
  "rd x = of_int (rne (x / 2 powi ulp_exp x)) * 2 powi ulp_exp x"

text \<open>Rounding of an exact result to binary64: what every arithmetic operation returns.\<close>

definition dbl :: "real \<Rightarrow> number" where
  "dbl x = (if 2 powi 1024 \<le> rd x then PosInf
            else if rd x \<le> - (2 powi 1024) then NegInf
            else Fin (rd x))"

text \<open>A real is a binary64 value when rounding leaves it alone.\<close>

definition is_double :: "real \<Rightarrow> bool" where
  "is_double x = (dbl x = Fin x)"

fun isNaN :: "number \<Rightarrow> bool" where
  "isNaN NaN = True"
| "isNaN _ = False"

fun is_fin :: "number \<Rightarrow> bool" where
  "is_fin (Fin _) = True"
| "is_fin _ = False"

subsection \<open>Arithmetic\<close>

fun jadd :: "number \<Rightarrow> number \<Rightarrow> number" where
  "jadd NaN _ = NaN"
| "jadd _ NaN = NaN"
| "jadd PosInf NegInf = NaN"
| "jadd NegInf PosInf = NaN"
| "jadd PosInf _ = PosInf"
| "jadd _ PosInf = PosInf"
| "jadd NegInf _ = NegInf"
| "jadd _ NegInf = NegInf"
| "jadd (Fin x) (Fin y) = dbl (x + y)"

fun jneg :: "number \<Rightarrow> number" where
  "jneg NaN = NaN"
| "jneg PosInf = NegInf"
| "jneg NegInf = PosInf"
| "jneg (Fin x) = Fin (- x)"

definition jsub :: "number \<Rightarrow> number \<Rightarrow> number" where
  "jsub a b = jadd a (jneg b)"

text \<open>The sign of a non-NaN number as \<open>-1\<close>, \<open>0\<close> or \<open>1\<close>.\<close>

fun jsgn :: "number \<Rightarrow> int" where
  "jsgn NaN = 0"
| "jsgn PosInf = 1"
| "jsgn NegInf = - 1"
| "jsgn (Fin x) = (if 0 < x then 1 else if x < 0 then - 1 else 0)"

definition signed_inf :: "int \<Rightarrow> number" where
  "signed_inf s = (if 0 < s then PosInf else if s < 0 then NegInf else NaN)"

fun jmul :: "number \<Rightarrow> number \<Rightarrow> number" where
  "jmul NaN _ = NaN"
| "jmul _ NaN = NaN"
| "jmul (Fin x) (Fin y) = dbl (x * y)"
| "jmul a b = signed_inf (jsgn a * jsgn b)"

fun jdiv :: "number \<Rightarrow> number \<Rightarrow> number" where
  "jdiv NaN _ = NaN"
| "jdiv _ NaN = NaN"
| "jdiv (Fin x) (Fin y) = (if y = 0 then signed_inf (jsgn (Fin x)) else dbl (x / y))"
| "jdiv (Fin x) _ = Fin 0"
| "jdiv a (Fin y) = signed_inf (jsgn a * (if y < 0 then - 1 else 1))"
| "jdiv _ _ = NaN"

text \<open>Comparisons: every comparison with \<open>NaN\<close> is false.\<close>

fun jle :: "number \<Rightarrow> number \<Rightarrow> bool" where
  "jle NaN _ = False"
| "jle _ NaN = False"
| "jle NegInf _ = True"
| "jle _ PosInf = True"
| "jle (Fin x) (Fin y) = (x \<le> y)"
| "jle _ _ = False"

fun jlt :: "number \<Rightarrow> number \<Rightarrow> bool" where
  "jlt NaN _ = False"
| "jlt _ NaN = False"
| "jlt PosInf _ = False"
| "jlt _ NegInf = False"
| "jlt (Fin x) (Fin y) = (x < y)"
| "jlt _ _ = True"

text \<open>
  The operators of the source are written as they are there: \<open>a + b\<close>, \<open>a * b\<close>,
  \<open>a \<le> b\<close> on \<open>number\<close> are the JavaScript ones. \<open>a \<ge> b\<close> is \<open>b \<le> a\<close>, which is
  false as soon as one side is \<open>NaN\<close>, as in JavaScript.
\<close>

instantiation number :: "{plus, minus, uminus, times, inverse, ord}"
begin

definition plus_number :: "number \<Rightarrow> number \<Rightarrow> number" where
  "plus_number a b = jadd a b"

definition minus_number :: "number \<Rightarrow> number \<Rightarrow> number" where
  "minus_number a b = jsub a b"

definition uminus_number :: "number \<Rightarrow> number" where
  "uminus_number a = jneg a"

definition times_number :: "number \<Rightarrow> number \<Rightarrow> number" where
  "times_number a b = jmul a b"

definition divide_number :: "number \<Rightarrow> number \<Rightarrow> number" where
  "divide_number a b = jdiv a b"

definition inverse_number :: "number \<Rightarrow> number" where
  "inverse_number a = jdiv (Fin 1) a"

definition less_eq_number :: "number \<Rightarrow> number \<Rightarrow> bool" where
  "less_eq_number a b = jle a b"

definition less_number :: "number \<Rightarrow> number \<Rightarrow> bool" where
  "less_number a b = jlt a b"

instance ..

end

subsection \<open>The Math object and array helpers\<close>

text \<open>\<open>Math.round\<close>: the nearest integer, ties towards \<open>+\<infinity>\<close>; exact.\<close>

fun Math_round :: "number \<Rightarrow> number" where
  "Math_round (Fin x) = Fin (of_int \<lfloor>x + 1 / 2\<rfloor>)"
| "Math_round a = a"

definition jmax :: "number \<Rightarrow> number \<Rightarrow> number" where
  "jmax a b = (if isNaN a \<or> isNaN b then NaN else if a \<le> b then b else a)"

definition jmin :: "number \<Rightarrow> number \<Rightarrow> number" where
  "jmin a b = (if isNaN a \<or> isNaN b then NaN else if a \<le> b then a else b)"

text \<open>
  \<open>Math.max(...xs)\<close> and \<open>Math.min(...xs)\<close>: \<open>NaN\<close> as soon as one argument is, and
  \<open>-Infinity\<close> (\<open>+Infinity\<close>) for no argument at all.
\<close>

fun Math_max :: "number list \<Rightarrow> number" where
  "Math_max [] = NegInf"
| "Math_max (x # xs) = jmax x (Math_max xs)"

fun Math_min :: "number list \<Rightarrow> number" where
  "Math_min [] = PosInf"
| "Math_min (x # xs) = jmin x (Math_min xs)"

text \<open>
  \<open>Math.pow\<close>, by the case table of ECMAScript's \<open>Number::exponentiate\<close>. Its last case
  is implementation-approximated in the standard; here it is the correctly rounded power.
\<close>

definition is_odd_integer :: "real \<Rightarrow> bool" where
  "is_odd_integer y = (y = of_int \<lfloor>y\<rfloor> \<and> odd \<lfloor>y\<rfloor>)"

fun Math_pow :: "number \<Rightarrow> number \<Rightarrow> number" where
  "Math_pow b NaN = NaN"
| "Math_pow b (Fin y) =
     (if y = 0 then Fin 1
      else case b of
        NaN \<Rightarrow> NaN
      | PosInf \<Rightarrow> if 0 < y then PosInf else Fin 0
      | NegInf \<Rightarrow> if 0 < y then (if is_odd_integer y then NegInf else PosInf) else Fin 0
      | Fin x \<Rightarrow>
          if x = 0 then (if 0 < y then Fin 0 else PosInf)
          else if x < 0 \<and> y \<noteq> of_int \<lfloor>y\<rfloor> then NaN
          else if x < 0 then dbl (x powi \<lfloor>y\<rfloor>)
          else dbl (x powr y))"
| "Math_pow b PosInf =
     (case b of
        NaN \<Rightarrow> NaN
      | Fin x \<Rightarrow> if 1 < \<bar>x\<bar> then PosInf else if \<bar>x\<bar> = 1 then NaN else Fin 0
      | _ \<Rightarrow> PosInf)"
| "Math_pow b NegInf =
     (case b of
        NaN \<Rightarrow> NaN
      | Fin x \<Rightarrow> if 1 < \<bar>x\<bar> then Fin 0 else if \<bar>x\<bar> = 1 then NaN else PosInf
      | _ \<Rightarrow> Fin 0)"

text \<open>\<open>xs.reduce((sum, t) => sum + t, 0)\<close>: the running sum from the left, starting at 0.\<close>

definition reduce_sum :: "number list \<Rightarrow> number" where
  "reduce_sum xs = foldl (+) (Fin 0) xs"

text \<open>The length of an array as a number.\<close>

definition num_length :: "'a list \<Rightarrow> number" where
  "num_length xs = Fin (of_nat (length xs))"

text \<open>
  \<open>xs.slice(0, n)\<close>: \<open>n\<close> is truncated to an integer (\<open>NaN\<close> counts as 0), a negative
  \<open>n\<close> counts from the end of the array, and the end is clamped to the array.
\<close>

definition trunc :: "real \<Rightarrow> int" where
  "trunc r = (if 0 \<le> r then \<lfloor>r\<rfloor> else \<lceil>r\<rceil>)"

fun slice0 :: "'a list \<Rightarrow> number \<Rightarrow> 'a list" where
  "slice0 xs NaN = []"
| "slice0 xs NegInf = []"
| "slice0 xs PosInf = xs"
| "slice0 xs (Fin r) =
     (let len = int (length xs); k = trunc r
      in if k < 0 then take (nat (max (len + k) 0)) xs
         else take (nat (min k len)) xs)"

section \<open>The data model\<close>

text \<open>
  \<open>Hour\<close> of \<open>src/logic/types.ts\<close>. The type declares every field a \<open>number\<close>;
  \<open>computeStats\<close> nevertheless reads \<open>temp\<close> with \<open>??\<close> and an undeclared
  \<open>humidity\<close> field with \<open>??\<close>, so these two are optional here (\<open>None\<close> is a field that
  is \<open>null\<close> or \<open>undefined\<close> at run time).
\<close>

record Hour =
  isoTime :: string
  temp :: "number option"
  apparent :: number
  pop :: number
  precip :: number
  wind :: number
  uv :: number
  humidity :: "number option"

record HourlyStats =
  minApparent :: number
  maxApparent :: number
  avgApparent :: number
  maxPOP :: number
  sumPrecip :: number
  maxUV :: number
  maxWind :: number

record WeatherAdvice =
  badges :: "string list"
  text_field :: string

datatype category = Clothing | Accessories | Safety | Comfort

datatype severity = Low | Medium | High

text \<open>An icon is the UTF-8 encoding of the emoji in the source.\<close>

record OutfitAdvice =
  id_field :: string
  category :: category
  message :: string
  icon :: string
  severity :: severity
  color :: string

section \<open>Apparent temperature\<close>

text \<open>
  \<open>computeApparentTemperature({ temp, humidity, wind, apparent })\<close>. The optional
  \<open>apparent\<close> is \<open>None\<close> when the property is missing; the test
  \<open>typeof apparent === 'number' && !isNaN(apparent)\<close> lets the infinities through.
\<close>

definition valid_number :: "number option \<Rightarrow> bool" where
  "valid_number a = (case a of Some x \<Rightarrow> \<not> isNaN x | None \<Rightarrow> False)"

definition computeApparentTemperature ::
  "number \<Rightarrow> number \<Rightarrow> number \<Rightarrow> number option \<Rightarrow> number" where
  "computeApparentTemperature temp' humidity' wind' apparent' =
     (if valid_number apparent' then the apparent'
      else if Fin 27 \<le> temp' \<and> Fin 40 \<le> humidity' then
        (let hi = - dbl 8.784695 + dbl 1.61139411 * temp' + dbl 2.338549 * humidity'
             - dbl 0.14611605 * temp' * humidity' - dbl 0.012308094 * temp' * temp'
             - dbl 0.016424828 * humidity' * humidity'
             + dbl 0.002211732 * temp' * temp' * humidity'
             + dbl 0.00072546 * temp' * humidity' * humidity'
             - dbl 0.000003582 * temp' * temp' * humidity' * humidity'
         in Math_round (hi * Fin 10) / Fin 10)
      else if temp' \<le> Fin 10 \<and> dbl 4.8 \<le> wind' then
        (let wc = dbl 13.12 + dbl 0.6215 * temp' - dbl 11.37 * Math_pow wind' (dbl 0.16)
             + dbl 0.3965 * temp' * Math_pow wind' (dbl 0.16)
         in Math_round (wc * Fin 10) / Fin 10)
      else Math_round (temp' * Fin 10) / Fin 10)"

section \<open>Window statistics\<close>

definition zero_stats :: HourlyStats where
  "zero_stats = \<lparr> minApparent = Fin 0, maxApparent = Fin 0, avgApparent = Fin 0,
                  maxPOP = Fin 0, sumPrecip = Fin 0, maxUV = Fin 0, maxWind = Fin 0 \<rparr>"

text \<open>
  \<open>computeStats(hours, _tz)\<close>; the second parameter is never read. Each hour's apparent
  temperature is resolved again through \<open>computeApparentTemperature\<close>, and every
  aggregate is rounded.
\<close>

definition resolve_hour :: "Hour \<Rightarrow> number" where
  "resolve_hour h =
     computeApparentTemperature
       (case temp h of Some t \<Rightarrow> t | None \<Rightarrow> apparent h)
       (case humidity h of Some r \<Rightarrow> r | None \<Rightarrow> Fin 50)
       (wind h)
       (Some (apparent h))"

definition computeStats :: "Hour list \<Rightarrow> HourlyStats" where
  "computeStats hours =
     (if hours = [] then zero_stats
      else
        let apparentTemps = map resolve_hour hours;
            precipProbs = map pop hours;
            precipAmounts = map precip hours;
            uvValues = map uv hours;
            windSpeeds = map wind hours
        in \<lparr> minApparent = Math_round (Math_min apparentTemps),
             maxApparent = Math_round (Math_max apparentTemps),
             avgApparent = Math_round (reduce_sum apparentTemps / num_length apparentTemps),
             maxPOP = Math_round (Math_max precipProbs),
             sumPrecip = Math_round (reduce_sum precipAmounts * Fin 10) / Fin 10,
             maxUV = Math_round (Math_max uvValues),
             maxWind = Math_round (Math_max windSpeeds) \<rparr>)"

text \<open>
  \<open>sliceNextHours(hours, n = 6)\<close>: the first \<open>n\<close> hours and their aggregates, not
  rounded. A caller that omits \<open>n\<close> gets 6.
\<close>

definition sliceNextHours :: "Hour list \<Rightarrow> number \<Rightarrow> Hour list \<times> HourlyStats" where
  "sliceNextHours hours n =
     (let nextHours = slice0 hours n
      in if length nextHours = 0 then ([], zero_stats)
         else
           let apparentTemps = map apparent nextHours;
               precipProbs = map pop nextHours;
               precipAmounts = map precip nextHours;
               uvValues = map uv nextHours;
               windSpeeds = map wind nextHours
           in (nextHours,
               \<lparr> minApparent = Math_min apparentTemps,
                 maxApparent = Math_max apparentTemps,
                 avgApparent = reduce_sum apparentTemps / num_length apparentTemps,
                 maxPOP = Math_max precipProbs,
                 sumPrecip = reduce_sum precipAmounts,
                 maxUV = Math_max uvValues,
                 maxWind = Math_max windSpeeds \<rparr>))"

definition sliceNextHours_default :: "Hour list \<Rightarrow> Hour list \<times> HourlyStats" where
  "sliceNextHours_default hours = sliceNextHours hours (Fin 6)"

section \<open>Badges and the summary sentence\<close>

definition buildAdvice :: "Hour list \<Rightarrow> WeatherAdvice" where
  "buildAdvice nextHours =
     (if nextHours = [] then
        \<lparr> badges = [], text_field = ''No weather data available for guidance.'' \<rparr>
      else
        let stats = computeStats (slice0 nextHours (Fin 6));
            next3Hours = slice0 nextHours (Fin 3);
            max3HourPOP = Math_max (map pop next3Hours);
            total3HourPrecip = reduce_sum (map precip next3Hours);
            badges1 = (if Fin 60 \<le> max3HourPOP \<and> dbl 0.2 \<le> total3HourPrecip
                       then [''Umbrella recommended''] else []);
            badges2 = badges1 @ (if Fin 6 \<le> maxUV stats
                       then [''Sunscreen recommended''] else []);
            badges3 = badges2 @ (if Fin 10 \<le> maxWind stats
                       then [''Wind caution''] else []);
            badges4 = badges3 @ (if Fin 25 < avgApparent stats
                       then [''Heat comfort tips''] else []);
            badges5 = badges4 @ (if avgApparent stats < Fin 0
                       then [''Layered clothing recommended''] else []);
            text0 = ''Weather conditions for the next 6 hours: '';
            text1 = text0 @
              (if avgApparent stats < Fin 0 then
                 ''very cold temperatures with possible wind chill effects''
               else if Fin 25 < avgApparent stats then
                 ''warm to hot conditions with elevated comfort concerns''
               else if Fin 15 \<le> avgApparent stats then
                 ''pleasant temperatures suitable for most outdoor activities''
               else ''cool conditions requiring appropriate clothing'');
            text2 = text1 @
              (if Fin 60 \<le> max3HourPOP then '', with rain likely in the next 3 hours''
               else if Fin 30 \<le> max3HourPOP then '', with possible precipitation''
               else []);
            text3 = text2 @ (if Fin 10 \<le> maxWind stats
                       then '', and notable wind activity'' else []);
            text4 = text3 @ (if Fin 6 \<le> maxUV stats
                       then '', with elevated UV exposure'' else []);
            text5 = text4 @ ''.''
        in \<lparr> badges = badges5, text_field = text5 \<rparr>)"

section \<open>Outfit and safety advice\<close>

text \<open>
  \<open>generateOutfitAdvice(stats)\<close> pushes onto one array, one block of rules after the
  other. Each block of the source is a definition here, named after the comment that
  opens it, and returns what the block pushes.
\<close>

text \<open>Temperature-based clothing advice.\<close>

definition clothing_advice :: "HourlyStats \<Rightarrow> OutfitAdvice list" where
  "clothing_advice stats =
     (if minApparent stats \<le> Fin 0 then
        [\<lparr> id_field = ''heavy-coat'', category = Clothing,
           message = ''Wear a heavy winter coat, gloves, and warm hat. It feels freezing cold!'',
           icon = [CHR 0xF0, CHR 0x9F, CHR 0xA7, CHR 0xA5],
           severity = High, color = ''#1e40af'' \<rparr>]
      else if minApparent stats \<le> Fin 10 then
        [\<lparr> id_field = ''warm-layers'', category = Clothing,
           message = ''Dress in warm layers with a jacket. It's quite chilly out there.'',
           icon = [CHR 0xF0, CHR 0x9F, CHR 0xA7, CHR 0xA5],
           severity = Medium, color = ''#3b82f6'' \<rparr>]
      else if Fin 30 \<le> maxApparent stats then
        [\<lparr> id_field = ''light-clothing'', category = Clothing,
           message = ''Wear light, breathable clothing. It's going to be hot!'',
           icon = [CHR 0xF0, CHR 0x9F, CHR 0x91, CHR 0x95],
           severity = Medium, color = ''#f59e0b'' \<rparr>]
      else if Fin 25 \<le> maxApparent stats then
        [\<lparr> id_field = ''comfortable-clothing'', category = Clothing,
           message = ''Dress comfortably in light layers. Perfect weather for being outside!'',
           icon = [CHR 0xF0, CHR 0x9F, CHR 0x91, CHR 0x95],
           severity = Low, color = ''#10b981'' \<rparr>]
      else [])"

text \<open>Temperature range advice.\<close>

definition range_advice :: "HourlyStats \<Rightarrow> OutfitAdvice list" where
  "range_advice stats =
     (if Fin 15 < maxApparent stats - minApparent stats then
        [\<lparr> id_field = ''layered-clothing'', category = Clothing,
           message = ''Temperature will vary a lot - dress in layers you can add or remove.'',
           icon = [CHR 0xF0, CHR 0x9F, CHR 0x94, CHR 0x84],
           severity = Medium, color = ''#8b5cf6'' \<rparr>]
      else [])"

text \<open>Precipitation advice.\<close>

definition precipitation_advice :: "HourlyStats \<Rightarrow> OutfitAdvice list" where
  "precipitation_advice stats =
     (if Fin 70 \<le> maxPOP stats \<or> Fin 2 < sumPrecip stats then
        [\<lparr> id_field = ''umbrella-rain'', category = Accessories,
           message = ''Bring an umbrella or waterproof jacket. Rain is very likely!'',
           icon = [CHR 0xE2, CHR 0x98, CHR 0x94],
           severity = High, color = ''#3b82f6'' \<rparr>]
      else if Fin 40 \<le> maxPOP stats \<or> dbl 0.5 < sumPrecip stats then
        [\<lparr> id_field = ''umbrella-maybe'', category = Accessories,
           message = ''Consider bringing an umbrella - there's a chance of rain.'',
           icon = [CHR 0xF0, CHR 0x9F, CHR 0x8C, CHR 0xA6, CHR 0xEF, CHR 0xB8, CHR 0x8F],
           severity = Medium, color = ''#6b7280'' \<rparr>]
      else [])"

text \<open>UV protection advice.\<close>

definition uv_advice :: "HourlyStats \<Rightarrow> OutfitAdvice list" where
  "uv_advice stats =
     (if Fin 8 \<le> maxUV stats then
        [\<lparr> id_field = ''sunscreen-high'', category = Safety,
           message = ''Apply SPF 30+ sunscreen and wear sunglasses. UV levels are very high!'',
           icon = [CHR 0xE2, CHR 0x98, CHR 0x80, CHR 0xEF, CHR 0xB8, CHR 0x8F],
           severity = High, color = ''#f59e0b'' \<rparr>]
      else if Fin 6 \<le> maxUV stats then
        [\<lparr> id_field = ''sunscreen-medium'', category = Safety,
           message = ''Don't forget sunscreen and a hat. UV levels are moderate to high.'',
           icon = [CHR 0xF0, CHR 0x9F, CHR 0xA7, CHR 0xB4],
           severity = Medium, color = ''#f59e0b'' \<rparr>]
      else if Fin 3 \<le> maxUV stats then
        [\<lparr> id_field = ''sunglasses'', category = Comfort,
           message = ''Sunglasses recommended for comfort in bright conditions.'',
           icon = [CHR 0xF0, CHR 0x9F, CHR 0x95, CHR 0xB6, CHR 0xEF, CHR 0xB8, CHR 0x8F],
           severity = Low, color = ''#10b981'' \<rparr>]
      else [])"

text \<open>Wind advice.\<close>

definition wind_advice :: "HourlyStats \<Rightarrow> OutfitAdvice list" where
  "wind_advice stats =
     (if Fin 50 \<le> maxWind stats then
        [\<lparr> id_field = ''wind-warning'', category = Safety,
           message = ''Very windy conditions! Secure loose items and be careful outdoors.'',
           icon = [CHR 0xF0, CHR 0x9F, CHR 0x92, CHR 0xA8],
           severity = High, color = ''#dc2626'' \<rparr>]
      else if Fin 30 \<le> maxWind stats then
        [\<lparr> id_field = ''wind-caution'', category = Comfort,
           message = ''It's quite windy - consider a windbreaker or secure hat.'',
           icon = [CHR 0xF0, CHR 0x9F, CHR 0x8C, CHR 0xAC, CHR 0xEF, CHR 0xB8, CHR 0x8F],
           severity = Medium, color = ''#f59e0b'' \<rparr>]
      else [])"

text \<open>General comfort advice.\<close>

definition comfort_advice :: "HourlyStats \<Rightarrow> OutfitAdvice list" where
  "comfort_advice stats =
     (if Fin 20 \<le> avgApparent stats \<and> avgApparent stats \<le> Fin 25
         \<and> maxPOP stats < Fin 30 \<and> maxWind stats < Fin 20 then
        [\<lparr> id_field = ''perfect-weather'', category = Comfort,
           message = ''Perfect weather for outdoor activities! Enjoy your time outside.'',
           icon = [CHR 0xF0, CHR 0x9F, CHR 0x8C, CHR 0x9F],
           severity = Low, color = ''#10b981'' \<rparr>]
      else [])"

definition generateOutfitAdvice :: "HourlyStats \<Rightarrow> OutfitAdvice list" where
  "generateOutfitAdvice stats =
     (let advice1 = clothing_advice stats;
          advice2 = advice1 @ range_advice stats;
          advice3 = advice2 @ precipitation_advice stats;
          advice4 = advice3 @ uv_advice stats;
          advice5 = advice4 @ wind_advice stats;
          advice6 = advice5 @ comfort_advice stats
      in advice6)"

section \<open>Notions used to state the properties\<close>

text \<open>The identifiers of the four rules of the temperature-clothing chain.\<close>

definition clothing_chain_ids :: "string list" where
  "clothing_chain_ids =
     [''heavy-coat'', ''warm-layers'', ''light-clothing'', ''comfortable-clothing'']"

text \<open>"Rounded to 1 decimal": the source's \<open>Math.round(x * 10) / 10\<close>.\<close>

definition rounded_to_1_decimal :: "number \<Rightarrow> number" where
  "rounded_to_1_decimal x = Math_round (x * Fin 10) / Fin 10"

text \<open>The four temperature clauses of the summary sentence.\<close>

definition temperature_clauses :: "string list" where
  "temperature_clauses =
     [''very cold temperatures with possible wind chill effects'',
      ''warm to hot conditions with elevated comfort concerns'',
      ''pleasant temperatures suitable for most outdoor activities'',
      ''cool conditions requiring appropriate clothing'']"

text \<open>
  A sample hour, the "Hot Summer Day" scenario of the repository's outfit-advice test
  script (the time stamp there is taken from the clock).
\<close>

definition summer_hour :: Hour where
  "summer_hour =
     \<lparr> isoTime = ''2025-09-10T12:00:00.000Z'', temp = Some (Fin 32), apparent = Fin 35,
       pop = Fin 10, precip = Fin 0, wind = Fin 15, uv = Fin 9, humidity = None \<rparr>"

text \<open>
  Field-wise rounding of a statistics object: integers everywhere, 1 decimal for the
  precipitation sum.
\<close>

definition round_stats :: "HourlyStats \<Rightarrow> HourlyStats" where
  "round_stats s =
     \<lparr> minApparent = Math_round (minApparent s),
       maxApparent = Math_round (maxApparent s),
       avgApparent = Math_round (avgApparent s),
       maxPOP = Math_round (maxPOP s),
       sumPrecip = rounded_to_1_decimal (sumPrecip s),
       maxUV = Math_round (maxUV s),
       maxWind = Math_round (maxWind s) \<rparr>"

text \<open>A number that is an integer; \<open>NaN\<close> and the infinities are not.\<close>

fun is_integer :: "number \<Rightarrow> bool" where
  "is_integer (Fin x) = (x = of_int \<lfloor>x\<rfloor>)"
| "is_integer _ = False"

text \<open>A number with one decimal: an integer divided by 10, as binary64 division gives it.\<close>

definition one_decimal :: "number \<Rightarrow> bool" where
  "one_decimal v = (\<exists>k::int. v = Fin (of_int k) / Fin 10)"

text \<open>The fixed rule orders: advisory item identifiers and badges in the order their rules are written.\<close>

definition advisory_rule_order :: "string list" where
  "advisory_rule_order =
     [''heavy-coat'', ''warm-layers'', ''light-clothing'', ''comfortable-clothing'',
      ''layered-clothing'', ''umbrella-rain'', ''umbrella-maybe'',
      ''sunscreen-high'', ''sunscreen-medium'', ''sunglasses'',
      ''wind-warning'', ''wind-caution'', ''perfect-weather'']"

definition badge_rule_order :: "string list" where
  "badge_rule_order =
     [''Umbrella recommended'', ''Sunscreen recommended'', ''Wind caution'',
      ''Heat comfort tips'', ''Layered clothing recommended'']"





section \<open>Evaluation and structure lemmas\<close>

lemmas number_ops = plus_number_def minus_number_def uminus_number_def times_number_def
  divide_number_def less_eq_number_def less_number_def jsub_def

lemmas dbl_eval = dbl_def rd_def ulp_exp_def rne_def ilog2.simps Let_def

lemma slice0_Nil: "slice0 [] n = []"
  by (cases n) (simp_all add: Let_def)

subsection \<open>The blocks of \<open>generateOutfitAdvice\<close>\<close>

lemma generateOutfitAdvice_blocks:
  "generateOutfitAdvice s = clothing_advice s @ range_advice s @ precipitation_advice s
     @ uv_advice s @ wind_advice s @ comfort_advice s"
  by (simp add: generateOutfitAdvice_def)

lemma ids_clothing:
  "map id_field (clothing_advice s) =
     (if minApparent s \<le> Fin 0 then [''heavy-coat'']
      else if minApparent s \<le> Fin 10 then [''warm-layers'']
      else if Fin 30 \<le> maxApparent s then [''light-clothing'']
      else if Fin 25 \<le> maxApparent s then [''comfortable-clothing'']
      else [])"
  by (simp add: clothing_advice_def)

lemma ids_range:
  "map id_field (range_advice s) =
     (if Fin 15 < maxApparent s - minApparent s then [''layered-clothing''] else [])"
  by (simp add: range_advice_def)

lemma ids_precipitation:
  "map id_field (precipitation_advice s) =
     (if Fin 70 \<le> maxPOP s \<or> Fin 2 < sumPrecip s then [''umbrella-rain'']
      else if Fin 40 \<le> maxPOP s \<or> dbl 0.5 < sumPrecip s then [''umbrella-maybe'']
      else [])"
  by (simp add: precipitation_advice_def)

lemma ids_uv:
  "map id_field (uv_advice s) =
     (if Fin 8 \<le> maxUV s then [''sunscreen-high'']
      else if Fin 6 \<le> maxUV s then [''sunscreen-medium'']
      else if Fin 3 \<le> maxUV s then [''sunglasses'']
      else [])"
  by (simp add: uv_advice_def)

lemma ids_wind:
  "map id_field (wind_advice s) =
     (if Fin 50 \<le> maxWind s then [''wind-warning'']
      else if Fin 30 \<le> maxWind s then [''wind-caution'']
      else [])"
  by (simp add: wind_advice_def)

lemma ids_comfort:
  "map id_field (comfort_advice s) =
     (if Fin 20 \<le> avgApparent s \<and> avgApparent s \<le> Fin 25
         \<and> maxPOP s < Fin 30 \<and> maxWind s < Fin 20 then [''perfect-weather''] else [])"
  by (simp add: comfort_advice_def)

lemmas ids_blocks = ids_clothing ids_range ids_precipitation ids_uv ids_wind ids_comfort

lemma length_filter_ids:
  "length (filter (\<lambda>a. id_field a \<in> S) xs) =
   length (filter (\<lambda>i. i \<in> S) (map id_field xs))"
  by (induction xs) simp_all

lemma chain_clothing:
  "length (filter (\<lambda>i. i \<in> set clothing_chain_ids) (map id_field (clothing_advice s))) \<le> 1"
  by (simp add: ids_clothing)

lemma chain_others:
  "filter (\<lambda>i. i \<in> set clothing_chain_ids) (map id_field (range_advice s)) = []"
  "filter (\<lambda>i. i \<in> set clothing_chain_ids) (map id_field (precipitation_advice s)) = []"
  "filter (\<lambda>i. i \<in> set clothing_chain_ids) (map id_field (uv_advice s)) = []"
  "filter (\<lambda>i. i \<in> set clothing_chain_ids) (map id_field (wind_advice s)) = []"
  "filter (\<lambda>i. i \<in> set clothing_chain_ids) (map id_field (comfort_advice s)) = []"
  by (simp_all add: ids_blocks clothing_chain_ids_def)

lemma layered_others:
  "''layered-clothing'' \<notin> set (map id_field (clothing_advice s))"
  "''layered-clothing'' \<notin> set (map id_field (precipitation_advice s))"
  "''layered-clothing'' \<notin> set (map id_field (uv_advice s))"
  "''layered-clothing'' \<notin> set (map id_field (wind_advice s))"
  "''layered-clothing'' \<notin> set (map id_field (comfort_advice s))"
  by (simp_all add: ids_blocks)

lemma layered_iff:
  "''layered-clothing'' \<in> set (map id_field (generateOutfitAdvice stats))
     \<longleftrightarrow> Fin 15 < maxApparent stats - minApparent stats"
proof -
  have "''layered-clothing'' \<in> set (map id_field (range_advice stats))
     \<longleftrightarrow> Fin 15 < maxApparent stats - minApparent stats"
    by (simp add: ids_range)
  then show ?thesis
    using layered_others[of stats]
    by (simp only: generateOutfitAdvice_blocks map_append set_append Un_iff) blast
qed

lemma swing_37: "Fin 32 - Fin (- 5) = Fin 37"
  by (simp add: number_ops dbl_eval)

lemma clothing_others:
  "filter (\<lambda>a. category a = Clothing) (precipitation_advice s) = []"
  "filter (\<lambda>a. category a = Clothing) (uv_advice s) = []"
  "filter (\<lambda>a. category a = Clothing) (wind_advice s) = []"
  "filter (\<lambda>a. category a = Clothing) (comfort_advice s) = []"
  by (simp_all add: precipitation_advice_def uv_advice_def wind_advice_def comfort_advice_def)

lemma clothing_example:
  "map id_field (filter (\<lambda>a. category a = Clothing)
      (generateOutfitAdvice (stats\<lparr> minApparent := Fin (- 5), maxApparent := Fin 32 \<rparr>)))
   = [''heavy-coat'', ''layered-clothing'']"
  by (simp add: generateOutfitAdvice_blocks clothing_others)
     (simp add: clothing_advice_def range_advice_def swing_37, simp add: number_ops)

subsection \<open>Evaluations for \<open>computeApparentTemperature\<close>\<close>

lemma heat_index_30_50:
  "rounded_to_1_decimal
     (- dbl 8.784695 + dbl 1.61139411 * Fin 30 + dbl 2.338549 * Fin 50
      - dbl 0.14611605 * Fin 30 * Fin 50 - dbl 0.012308094 * Fin 30 * Fin 30
      - dbl 0.016424828 * Fin 50 * Fin 50 + dbl 0.002211732 * Fin 30 * Fin 30 * Fin 50
      + dbl 0.00072546 * Fin 30 * Fin 50 * Fin 50
      - dbl 0.000003582 * Fin 30 * Fin 30 * Fin 50 * Fin 50)
   = Fin 31"
  by (simp add: rounded_to_1_decimal_def number_ops dbl_eval)

lemma wind_threshold: "dbl 4.8 \<le> Fin 5" "\<not> dbl 4.8 \<le> Fin 1"
  by (simp_all add: less_eq_number_def dbl_eval)

subsection \<open>The badges of \<open>buildAdvice\<close>\<close>

lemma slice0_6: "slice0 xs (Fin 6) = take 6 xs"
  by (simp add: trunc_def Let_def min_def)

lemma slice0_3: "slice0 xs (Fin 3) = take 3 xs"
  by (simp add: trunc_def Let_def min_def)

lemma badges_buildAdvice:
  "hours \<noteq> [] \<Longrightarrow> badges (buildAdvice hours) =
     (if Fin 60 \<le> Math_max (map pop (take 3 hours))
         \<and> dbl 0.2 \<le> reduce_sum (map precip (take 3 hours))
      then [''Umbrella recommended''] else [])
     @ (if Fin 6 \<le> maxUV (computeStats (take 6 hours))
        then [''Sunscreen recommended''] else [])
     @ (if Fin 10 \<le> maxWind (computeStats (take 6 hours))
        then [''Wind caution''] else [])
     @ (if Fin 25 < avgApparent (computeStats (take 6 hours))
        then [''Heat comfort tips''] else [])
     @ (if avgApparent (computeStats (take 6 hours)) < Fin 0
        then [''Layered clothing recommended''] else [])"
  by (simp add: buildAdvice_def Let_def slice0_6 slice0_3 del: slice0.simps
        split del: if_split)

lemma mem_opt: "x \<in> set (if c then [a] else []) \<longleftrightarrow> c \<and> x = a"
  by auto

lemma umbrella_iff:
  "(''Umbrella recommended'' \<in> set (badges (buildAdvice hours)))
     = (Fin 60 \<le> Math_max (map pop (take 3 hours))
        \<and> dbl 0.2 \<le> reduce_sum (map precip (take 3 hours)))"
proof (cases "hours = []")
  case True
  then show ?thesis by (simp add: buildAdvice_def less_eq_number_def)
next
  case False
  then show ?thesis
    by (simp add: badges_buildAdvice mem_opt split del: if_split)
qed

lemma precip_sum_025: "dbl 0.2 \<le> reduce_sum [dbl 0.1, dbl 0.1, dbl 0.05]"
  by (simp add: reduce_sum_def number_ops dbl_eval)

lemma precip_sum_015: "\<not> dbl 0.2 \<le> reduce_sum [dbl 0.05, dbl 0.05, dbl 0.05]"
  by (simp add: reduce_sum_def number_ops dbl_eval)

lemma pop_max_60: "Fin 60 \<le> Math_max [Fin 60, Fin 60, Fin 60]"
  by (simp add: jmax_def less_eq_number_def)

subsection \<open>The summary sentence of \<open>buildAdvice\<close>\<close>

lemma text_buildAdvice:
  "hours \<noteq> [] \<Longrightarrow> text_field (buildAdvice hours) =
     ''Weather conditions for the next 6 hours: ''
     @ (if avgApparent (computeStats (take 6 hours)) < Fin 0 then
          ''very cold temperatures with possible wind chill effects''
        else if Fin 25 < avgApparent (computeStats (take 6 hours)) then
          ''warm to hot conditions with elevated comfort concerns''
        else if Fin 15 \<le> avgApparent (computeStats (take 6 hours)) then
          ''pleasant temperatures suitable for most outdoor activities''
        else ''cool conditions requiring appropriate clothing'')
     @ (if Fin 60 \<le> Math_max (map pop (take 3 hours))
          then '', with rain likely in the next 3 hours''
        else if Fin 30 \<le> Math_max (map pop (take 3 hours))
          then '', with possible precipitation''
        else [])
     @ (if Fin 10 \<le> maxWind (computeStats (take 6 hours))
          then '', and notable wind activity'' else [])
     @ (if Fin 6 \<le> maxUV (computeStats (take 6 hours))
          then '', with elevated UV exposure'' else [])
     @ ''.''"
  by (simp add: buildAdvice_def Let_def slice0_6 slice0_3 del: slice0.simps
        split del: if_split)

lemma text_shape:
  assumes "hours \<noteq> []"
  shows "\<exists>c \<in> set temperature_clauses.
   \<exists>r \<in> set ['', with rain likely in the next 3 hours'', '', with possible precipitation'', []].
   \<exists>w \<in> set ['', and notable wind activity'', []].
   \<exists>u \<in> set ['', with elevated UV exposure'', []].
     text_field (buildAdvice hours) =
       ''Weather conditions for the next 6 hours: '' @ c @ r @ w @ u @ ''.''"
proof -
  define c where "c = (if avgApparent (computeStats (take 6 hours)) < Fin 0 then
          ''very cold temperatures with possible wind chill effects''
        else if Fin 25 < avgApparent (computeStats (take 6 hours)) then
          ''warm to hot conditions with elevated comfort concerns''
        else if Fin 15 \<le> avgApparent (computeStats (take 6 hours)) then
          ''pleasant temperatures suitable for most outdoor activities''
        else ''cool conditions requiring appropriate clothing'')"
  define r where "r = (if Fin 60 \<le> Math_max (map pop (take 3 hours))
          then '', with rain likely in the next 3 hours''
        else if Fin 30 \<le> Math_max (map pop (take 3 hours))
          then '', with possible precipitation''
        else [])"
  define w where "w = (if Fin 10 \<le> maxWind (computeStats (take 6 hours))
          then '', and notable wind activity'' else [])"
  define u where "u = (if Fin 6 \<le> maxUV (computeStats (take 6 hours))
          then '', with elevated UV exposure'' else [])"
  have "c \<in> set temperature_clauses"
    by (simp add: c_def temperature_clauses_def)
  moreover have "r \<in> set ['', with rain likely in the next 3 hours'',
      '', with possible precipitation'', []]"
    by (simp add: r_def)
  moreover have "w \<in> set ['', and notable wind activity'', []]"
    by (simp add: w_def)
  moreover have "u \<in> set ['', with elevated UV exposure'', []]"
    by (simp add: u_def)
  moreover have "text_field (buildAdvice hours) =
       ''Weather conditions for the next 6 hours: '' @ c @ r @ w @ u @ ''.''"
    unfolding text_buildAdvice[OF assms] c_def r_def w_def u_def ..
  ultimately show ?thesis by blast
qed

lemma clause_unique:
  "\<forall>c \<in> set temperature_clauses.
   \<forall>r \<in> set ['', with rain likely in the next 3 hours'', '', with possible precipitation'', []].
   \<forall>w \<in> set ['', and notable wind activity'', []].
   \<forall>u \<in> set ['', with elevated UV exposure'', []].
   \<forall>c' \<in> set temperature_clauses.
     sublist c' (''Weather conditions for the next 6 hours: '' @ c @ r @ w @ u @ ''.'') \<longrightarrow> c' = c"
  by code_simp

lemma no_clause_in_empty: "\<not> (\<exists>c \<in> set temperature_clauses. sublist c (text_field (buildAdvice [])))"
  unfolding buildAdvice_def temperature_clauses_def by code_simp

lemma heat_cold_disjoint: "\<not> (Fin 25 < a \<and> a < Fin 0)"
  by (cases a) (simp_all add: less_number_def)

lemma one_clause:
  assumes "hours \<noteq> []"
  shows "\<exists>!c. c \<in> set temperature_clauses \<and> sublist c (text_field (buildAdvice hours))"
proof -
  from text_shape[OF assms] obtain c r w u where
    m: "c \<in> set temperature_clauses"
      "r \<in> set ['', with rain likely in the next 3 hours'', '', with possible precipitation'', []]"
      "w \<in> set ['', and notable wind activity'', []]"
      "u \<in> set ['', with elevated UV exposure'', []]"
    and t: "text_field (buildAdvice hours) =
       ''Weather conditions for the next 6 hours: '' @ c @ r @ w @ u @ ''.''"
    by blast
  have "sublist c (text_field (buildAdvice hours))"
    unfolding t by (rule sublist_appendI)
  moreover have "c' = c" if "c' \<in> set temperature_clauses"
      "sublist c' (text_field (buildAdvice hours))" for c'
    using clause_unique m that unfolding t by blast
  ultimately show ?thesis using m(1) by blast
qed

subsection \<open>Rounded and unrounded statistics\<close>

lemma dbl_0: "dbl 0 = Fin 0"
  by (simp add: dbl_eval)

lemma round_zero_stats: "round_stats zero_stats = zero_stats"
  by (simp add: round_stats_def zero_stats_def rounded_to_1_decimal_def number_ops dbl_0)

lemma resolve_valid: "\<not> isNaN (apparent h) \<Longrightarrow> resolve_hour h = apparent h"
  by (simp add: resolve_hour_def computeApparentTemperature_def valid_number_def)

lemma map_resolve:
  "\<forall>h \<in> set w. \<not> isNaN (apparent h) \<Longrightarrow> map resolve_hour w = map apparent w"
  by (simp add: resolve_valid)

lemma computeStats_round:
  assumes "\<forall>h \<in> set (slice0 hours n). \<not> isNaN (apparent h)"
  shows "computeStats (slice0 hours n) = round_stats (snd (sliceNextHours hours n))"
proof (cases "slice0 hours n = []")
  case True
  then show ?thesis
    by (simp add: computeStats_def sliceNextHours_def round_zero_stats)
next
  case False
  have m: "map resolve_hour (slice0 hours n) = map apparent (slice0 hours n)"
    by (rule map_resolve[OF assms])
  from False show ?thesis
    by (simp add: computeStats_def sliceNextHours_def Let_def round_stats_def
          rounded_to_1_decimal_def num_length_def m)
qed

lemma slice0_all:
  assumes "Fin (of_nat (length hours)) \<le> n"
  shows "slice0 hours n = hours"
proof (cases n)
  case (Fin r)
  with assms have "of_nat (length hours) \<le> r" by (simp add: less_eq_number_def)
  then have "int (length hours) \<le> \<lfloor>r\<rfloor>" by (simp add: le_floor_iff)
  moreover from \<open>of_nat (length hours) \<le> r\<close> have "0 \<le> r"
    by (meson of_nat_0_le_iff order_trans)
  ultimately show ?thesis using Fin by (simp add: trunc_def Let_def min_def)
qed (use assms in \<open>simp_all add: less_eq_number_def\<close>)

lemma Math_min_fin:
  "xs \<noteq> [] \<Longrightarrow> \<forall>x \<in> set xs. is_fin x \<Longrightarrow> is_fin (Math_min xs)"
proof (induction xs rule: list_nonempty_induct)
  case (single x)
  then show ?case by (cases x) (simp_all add: jmin_def less_eq_number_def)
next
  case (cons x xs)
  then obtain a b where "x = Fin a" "Math_min xs = Fin b"
    by (metis is_fin.elims(2) list.set_intros(1) list.set_intros(2))
  then show ?case by (simp add: jmin_def)
qed

lemma Math_max_fin:
  "xs \<noteq> [] \<Longrightarrow> \<forall>x \<in> set xs. is_fin x \<Longrightarrow> is_fin (Math_max xs)"
proof (induction xs rule: list_nonempty_induct)
  case (single x)
  then show ?case by (cases x) (simp_all add: jmax_def less_eq_number_def)
next
  case (cons x xs)
  then obtain a b where "x = Fin a" "Math_max xs = Fin b"
    by (metis is_fin.elims(2) list.set_intros(1) list.set_intros(2))
  then show ?case by (simp add: jmax_def)
qed

lemma is_integer_round: "is_fin a \<Longrightarrow> is_integer (Math_round a)"
  by (cases a) simp_all

lemma one_decimal_round: "is_fin (a * Fin 10) \<Longrightarrow> one_decimal (rounded_to_1_decimal a)"
  by (cases "a * Fin 10") (auto simp: one_decimal_def rounded_to_1_decimal_def)

lemma is_fin_not_NaN: "is_fin a \<Longrightarrow> \<not> isNaN a"
  by (cases a) simp_all

lemma summer2_raw:
  "snd (sliceNextHours [summer_hour, summer_hour] PosInf) =
     \<lparr> minApparent = Fin 35, maxApparent = Fin 35, avgApparent = Fin 35, maxPOP = Fin 10,
       sumPrecip = Fin 0, maxUV = Fin 9, maxWind = Fin 15 \<rparr>"
  by (simp add: sliceNextHours_def Let_def summer_hour_def jmin_def jmax_def reduce_sum_def
        num_length_def number_ops dbl_eval)

subsection \<open>Statistics of the 6-hour window\<close>

lemma computeStats_take6:
  assumes "\<forall>h \<in> set (take 6 hours). \<not> isNaN (apparent h)"
  shows "computeStats (take 6 hours) = round_stats (snd (sliceNextHours hours (Fin 6)))"
  using computeStats_round[of hours "Fin 6"] assms
  by (simp add: slice0_6 del: slice0.simps)

lemma warm_raw:
  "snd (sliceNextHours [summer_hour\<lparr> apparent := Fin (101 / 4) \<rparr>] (Fin 6)) =
     \<lparr> minApparent = Fin (101 / 4), maxApparent = Fin (101 / 4), avgApparent = Fin (101 / 4),
       maxPOP = Fin 10, sumPrecip = Fin 0, maxUV = Fin 9, maxWind = Fin 15 \<rparr>"
  by (simp add: sliceNextHours_def Let_def slice0_6 summer_hour_def jmin_def jmax_def
        reduce_sum_def num_length_def number_ops dbl_eval del: slice0.simps)

subsection \<open>Output order\<close>

lemma subseq_blocks:
  "subseq (map id_field (clothing_advice s))
     [''heavy-coat'', ''warm-layers'', ''light-clothing'', ''comfortable-clothing'']"
  "subseq (map id_field (range_advice s)) [''layered-clothing'']"
  "subseq (map id_field (precipitation_advice s)) [''umbrella-rain'', ''umbrella-maybe'']"
  "subseq (map id_field (uv_advice s)) [''sunscreen-high'', ''sunscreen-medium'', ''sunglasses'']"
  "subseq (map id_field (wind_advice s)) [''wind-warning'', ''wind-caution'']"
  "subseq (map id_field (comfort_advice s)) [''perfect-weather'']"
  by (simp_all add: ids_blocks)

lemma subseq_advice: "subseq (map id_field (generateOutfitAdvice s)) advisory_rule_order"
proof -
  have eq: "advisory_rule_order =
     [''heavy-coat'', ''warm-layers'', ''light-clothing'', ''comfortable-clothing'']
     @ [''layered-clothing''] @ [''umbrella-rain'', ''umbrella-maybe'']
     @ [''sunscreen-high'', ''sunscreen-medium'', ''sunglasses'']
     @ [''wind-warning'', ''wind-caution''] @ [''perfect-weather'']"
    by (simp add: advisory_rule_order_def)
  show ?thesis
    unfolding generateOutfitAdvice_blocks map_append eq
    by (intro list_emb_append_mono subseq_blocks)
qed

lemma subseq_opt: "subseq (if c then [a] else []) [a]"
  by simp

lemma subseq_badges: "subseq (badges (buildAdvice hours)) badge_rule_order"
proof (cases "hours = []")
  case True
  then show ?thesis by (simp add: buildAdvice_def)
next
  case False
  have eq: "badge_rule_order = [''Umbrella recommended''] @ [''Sunscreen recommended'']
     @ [''Wind caution''] @ [''Heat comfort tips''] @ [''Layered clothing recommended'']"
    by (simp add: badge_rule_order_def)
  show ?thesis
    unfolding badges_buildAdvice[OF False] eq
    by (intro list_emb_append_mono subseq_opt)
qed

subsection \<open>Rounding to binary64 is monotone\<close>













lemma powi2_pos: "0 < (2::real) powi e"
  by simp






subsection \<open>Minimum, average and maximum of a list\<close>






text \<open>
  The rounded path is not safe either: for six hours at \<open>2\<^sup>5\<^sup>1 + 3\<close> the running sum
  is rounded upwards twice and \<open>computeStats\<close> returns an average one above the maximum.
\<close>

lemma rounded_path_violation:
  "avgApparent (computeStats (replicate 6 (summer_hour\<lparr> apparent := Fin 2251799813685251 \<rparr>)))
     = Fin 2251799813685252
   \<and> maxApparent (computeStats (replicate 6 (summer_hour\<lparr> apparent := Fin 2251799813685251 \<rparr>)))
     = Fin 2251799813685251"
  by (simp add: computeStats_def Let_def resolve_hour_def computeApparentTemperature_def
        valid_number_def summer_hour_def jmax_def reduce_sum_def num_length_def
        numeral_eq_Suc number_ops dbl_eval)

subsection \<open>Multiples of a power of two are binary64 numbers\<close>




subsection \<open>The running sum stays between multiples of the grid\<close>











subsection \<open>One-decimal values keep clear of the rounding boundaries\<close>


subsection \<open>A window with UV index 5.5\<close>

lemma mild_uv_raw:
  "snd (sliceNextHours [summer_hour\<lparr> uv := Fin (11 / 2) \<rparr>] (Fin 6)) =
     \<lparr> minApparent = Fin 35, maxApparent = Fin 35, avgApparent = Fin 35,
       maxPOP = Fin 10, sumPrecip = Fin 0, maxUV = Fin (11 / 2), maxWind = Fin 15 \<rparr>"
  by (simp add: sliceNextHours_def Let_def slice0_6 summer_hour_def jmin_def jmax_def
        reduce_sum_def num_length_def number_ops dbl_eval del: slice0.simps)

section \<open>Properties\<close>

text \<open>
  Claim C5. In \<open>generateOutfitAdvice\<close> the four temperature-clothing rules (heavy-coat,
  warm-layers, light-clothing, comfortable-clothing) are one if/else-if chain: whatever the
  statistics, at most one item of the result carries one of their identifiers. The
  layered-clothing rule is evaluated on its own: its item is in the result exactly when
  \<open>maxApparent - minApparent > 15\<close>. For \<open>minApparent = -5\<close> and \<open>maxApparent = 32\<close>
  (the other statistics arbitrary) the clothing items of the result are heavy-coat followed
  by layered-clothing, and nothing else.
\<close>

theorem C5_clothing_chain_exclusive:
  "length (filter (\<lambda>a. id_field a \<in> set clothing_chain_ids) (generateOutfitAdvice stats)) \<le> 1
   \<and> (''layered-clothing'' \<in> set (map id_field (generateOutfitAdvice stats))
        = (Fin 15 < maxApparent stats - minApparent stats))
   \<and> map id_field (filter (\<lambda>a. category a = Clothing)
        (generateOutfitAdvice (stats'\<lparr> minApparent := Fin (- 5), maxApparent := Fin 32 \<rparr>)))
      = [''heavy-coat'', ''layered-clothing'']"
proof (intro conjI)
  show "length (filter (\<lambda>a. id_field a \<in> set clothing_chain_ids)
          (generateOutfitAdvice stats)) \<le> 1"
    using chain_clothing[of stats]
    by (simp add: length_filter_ids generateOutfitAdvice_blocks chain_others)
  show "(''layered-clothing'' \<in> set (map id_field (generateOutfitAdvice stats)))
        = (Fin 15 < maxApparent stats - minApparent stats)"
    by (rule layered_iff)
  show "map id_field (filter (\<lambda>a. category a = Clothing)
        (generateOutfitAdvice (stats'\<lparr> minApparent := Fin (- 5), maxApparent := Fin 32 \<rparr>)))
      = [''heavy-coat'', ''layered-clothing'']"
    by (rule clothing_example)
qed

text \<open>
  Claim C6. Empty input is a defined degenerate case: \<open>computeStats\<close> of no hours is the
  statistics object with every field zero; \<open>sliceNextHours\<close> of no hours is, for every
  window size \<open>n\<close>, the empty window with the same all-zero statistics; and
  \<open>buildAdvice\<close> of no hours is exactly the object with no badge and the text
  "No weather data available for guidance.".
\<close>

theorem C6_empty_input:
  "computeStats [] =
     \<lparr> minApparent = Fin 0, maxApparent = Fin 0, avgApparent = Fin 0, maxPOP = Fin 0,
       sumPrecip = Fin 0, maxUV = Fin 0, maxWind = Fin 0 \<rparr>
   \<and> sliceNextHours [] n =
     ([], \<lparr> minApparent = Fin 0, maxApparent = Fin 0, avgApparent = Fin 0, maxPOP = Fin 0,
       sumPrecip = Fin 0, maxUV = Fin 0, maxWind = Fin 0 \<rparr>)
   \<and> buildAdvice [] =
     \<lparr> badges = [], text_field = ''No weather data available for guidance.'' \<rparr>"
  by (simp add: computeStats_def sliceNextHours_def buildAdvice_def zero_stats_def slice0_Nil)

text \<open>
  Claim C1. \<open>computeApparentTemperature\<close> tries its branches in the order measured
  value, heat index, wind chill, air temperature, and the first that matches wins: a
  measured apparent temperature that is a number other than \<open>NaN\<close> is returned as it is;
  otherwise, if \<open>temp \<ge> 27\<close> and \<open>humidity \<ge> 40\<close>, the heat-index polynomial rounded to
  1 decimal; otherwise, if \<open>temp \<le> 10\<close> and \<open>wind \<ge> 4.8\<close>, the wind chill
  \<open>13.12 + 0.6215 T - 11.37 V\<^sup>0\<^sup>.\<^sup>1\<^sup>6 + 0.3965 T V\<^sup>0\<^sup>.\<^sup>1\<^sup>6\<close> rounded to 1 decimal; otherwise the
  air temperature rounded to 1 decimal.
\<close>

theorem C1_apparent_temperature_branch_order:
  "(\<not> isNaN a \<longrightarrow> computeApparentTemperature t h w (Some a) = a)
   \<and> (\<not> valid_number ap \<and> Fin 27 \<le> t \<and> Fin 40 \<le> h \<longrightarrow>
        computeApparentTemperature t h w ap =
          rounded_to_1_decimal
            (- dbl 8.784695 + dbl 1.61139411 * t + dbl 2.338549 * h
             - dbl 0.14611605 * t * h - dbl 0.012308094 * t * t
             - dbl 0.016424828 * h * h + dbl 0.002211732 * t * t * h
             + dbl 0.00072546 * t * h * h - dbl 0.000003582 * t * t * h * h))
   \<and> (\<not> valid_number ap \<and> \<not> (Fin 27 \<le> t \<and> Fin 40 \<le> h)
        \<and> t \<le> Fin 10 \<and> dbl 4.8 \<le> w \<longrightarrow>
        computeApparentTemperature t h w ap =
          rounded_to_1_decimal
            (dbl 13.12 + dbl 0.6215 * t - dbl 11.37 * Math_pow w (dbl 0.16)
             + dbl 0.3965 * t * Math_pow w (dbl 0.16)))
   \<and> (\<not> valid_number ap \<and> \<not> (Fin 27 \<le> t \<and> Fin 40 \<le> h)
        \<and> \<not> (t \<le> Fin 10 \<and> dbl 4.8 \<le> w) \<longrightarrow>
        computeApparentTemperature t h w ap = rounded_to_1_decimal t)"
  by (simp add: computeApparentTemperature_def valid_number_def rounded_to_1_decimal_def)

text \<open>
  The four branches at concrete inputs: a measured 20 is passed through; 30 degrees at 50%
  humidity with a \<open>NaN\<close> measurement gives the heat index 31; 0 degrees with wind 5 and no
  measurement gives the wind chill; 20.25 degrees with wind 1 gives 20.3.
\<close>

theorem C1_branch_order_witness:
  "computeApparentTemperature (Fin 30) (Fin 50) (Fin 1) (Some (Fin 20)) = Fin 20
   \<and> computeApparentTemperature (Fin 30) (Fin 50) (Fin 1) (Some NaN) = Fin 31
   \<and> computeApparentTemperature (Fin 0) (Fin 50) (Fin 5) None =
        rounded_to_1_decimal
          (dbl 13.12 + dbl 0.6215 * Fin 0 - dbl 11.37 * Math_pow (Fin 5) (dbl 0.16)
           + dbl 0.3965 * Fin 0 * Math_pow (Fin 5) (dbl 0.16))
   \<and> computeApparentTemperature (Fin 20.25) (Fin 50) (Fin 1) None = dbl 20.3"
proof (intro conjI)
  show "computeApparentTemperature (Fin 30) (Fin 50) (Fin 1) (Some (Fin 20)) = Fin 20"
    using C1_apparent_temperature_branch_order
      [of "Fin 20" "Fin 30" "Fin 50" "Fin 1" "Some NaN"]
    by simp
  have "computeApparentTemperature (Fin 30) (Fin 50) (Fin 1) (Some NaN) =
     rounded_to_1_decimal
       (- dbl 8.784695 + dbl 1.61139411 * Fin 30 + dbl 2.338549 * Fin 50
        - dbl 0.14611605 * Fin 30 * Fin 50 - dbl 0.012308094 * Fin 30 * Fin 30
        - dbl 0.016424828 * Fin 50 * Fin 50 + dbl 0.002211732 * Fin 30 * Fin 30 * Fin 50
        + dbl 0.00072546 * Fin 30 * Fin 50 * Fin 50
        - dbl 0.000003582 * Fin 30 * Fin 30 * Fin 50 * Fin 50)"
    using C1_apparent_temperature_branch_order
      [of "Fin 20" "Fin 30" "Fin 50" "Fin 1" "Some NaN"]
    by (simp add: valid_number_def less_eq_number_def)
  then show "computeApparentTemperature (Fin 30) (Fin 50) (Fin 1) (Some NaN) = Fin 31"
    by (simp only: heat_index_30_50)
  show "computeApparentTemperature (Fin 0) (Fin 50) (Fin 5) None =
        rounded_to_1_decimal
          (dbl 13.12 + dbl 0.6215 * Fin 0 - dbl 11.37 * Math_pow (Fin 5) (dbl 0.16)
           + dbl 0.3965 * Fin 0 * Math_pow (Fin 5) (dbl 0.16))"
    using C1_apparent_temperature_branch_order
      [of "Fin 20" "Fin 0" "Fin 50" "Fin 5" "None"] wind_threshold
    by (simp add: valid_number_def less_eq_number_def)
  have "computeApparentTemperature (Fin 20.25) (Fin 50) (Fin 1) None =
        rounded_to_1_decimal (Fin 20.25)"
    using C1_apparent_temperature_branch_order
      [of "Fin 20" "Fin 20.25" "Fin 50" "Fin 1" "None"] wind_threshold
    by (simp add: valid_number_def less_eq_number_def)
  also have "\<dots> = dbl 20.3"
    by (simp add: rounded_to_1_decimal_def number_ops dbl_eval)
  finally show "computeApparentTemperature (Fin 20.25) (Fin 50) (Fin 1) None = dbl 20.3" .
qed

text \<open>
  Claim C4. \<open>buildAdvice\<close> appends the badge "Umbrella recommended" if and only if the
  maximum precipitation probability over the first 3 hours is at least 60 and the summed
  precipitation amount over the first 3 hours is at least 0.2. For three hours with
  probabilities 60, 60, 60 and amounts 0.1, 0.1, 0.05 the badge is there; with amounts
  0.05, 0.05, 0.05 it is not, although the probability condition holds. (The other fields
  of the three hours are arbitrary.)
\<close>

theorem C4_umbrella_badge:
  "(''Umbrella recommended'' \<in> set (badges (buildAdvice hours)))
     = (Fin 60 \<le> Math_max (map pop (take 3 hours))
        \<and> dbl 0.2 \<le> reduce_sum (map precip (take 3 hours)))
   \<and> ''Umbrella recommended'' \<in> set (badges (buildAdvice
        [h1\<lparr> pop := Fin 60, precip := dbl 0.1 \<rparr>,
         h2\<lparr> pop := Fin 60, precip := dbl 0.1 \<rparr>,
         h3\<lparr> pop := Fin 60, precip := dbl 0.05 \<rparr>]))
   \<and> ''Umbrella recommended'' \<notin> set (badges (buildAdvice
        [h1\<lparr> pop := Fin 60, precip := dbl 0.05 \<rparr>,
         h2\<lparr> pop := Fin 60, precip := dbl 0.05 \<rparr>,
         h3\<lparr> pop := Fin 60, precip := dbl 0.05 \<rparr>]))
   \<and> Fin 60 \<le> Math_max (map pop
        [h1\<lparr> pop := Fin 60, precip := dbl 0.05 \<rparr>,
         h2\<lparr> pop := Fin 60, precip := dbl 0.05 \<rparr>,
         h3\<lparr> pop := Fin 60, precip := dbl 0.05 \<rparr>])"
proof (intro conjI)
  show "(''Umbrella recommended'' \<in> set (badges (buildAdvice hours)))
     = (Fin 60 \<le> Math_max (map pop (take 3 hours))
        \<and> dbl 0.2 \<le> reduce_sum (map precip (take 3 hours)))"
    by (rule umbrella_iff)
  show "''Umbrella recommended'' \<in> set (badges (buildAdvice
        [h1\<lparr> pop := Fin 60, precip := dbl 0.1 \<rparr>,
         h2\<lparr> pop := Fin 60, precip := dbl 0.1 \<rparr>,
         h3\<lparr> pop := Fin 60, precip := dbl 0.05 \<rparr>]))"
    unfolding umbrella_iff using precip_sum_025 pop_max_60 by simp
  show "''Umbrella recommended'' \<notin> set (badges (buildAdvice
        [h1\<lparr> pop := Fin 60, precip := dbl 0.05 \<rparr>,
         h2\<lparr> pop := Fin 60, precip := dbl 0.05 \<rparr>,
         h3\<lparr> pop := Fin 60, precip := dbl 0.05 \<rparr>]))"
    unfolding umbrella_iff using precip_sum_015 pop_max_60 by simp
  show "Fin 60 \<le> Math_max (map pop
        [h1\<lparr> pop := Fin 60, precip := dbl 0.05 \<rparr>,
         h2\<lparr> pop := Fin 60, precip := dbl 0.05 \<rparr>,
         h3\<lparr> pop := Fin 60, precip := dbl 0.05 \<rparr>])"
    using pop_max_60 by simp
qed

text \<open>
  Claim C10, as stated: for every input, the badges never hold both "Heat comfort tips"
  and "Layered clothing recommended", and exactly one of the four temperature clauses
  occurs in the summary sentence. It fails for the empty hour list, where the sentence is
  "No weather data available for guidance." and holds none of the four clauses.
\<close>

theorem C10_counterexample:
  "\<not> (\<forall>hours.
        \<not> (''Heat comfort tips'' \<in> set (badges (buildAdvice hours))
           \<and> ''Layered clothing recommended'' \<in> set (badges (buildAdvice hours)))
        \<and> (\<exists>!c. c \<in> set temperature_clauses
               \<and> sublist c (text_field (buildAdvice hours))))"
  using no_clause_in_empty by blast

text \<open>
  Claim C10, amended: for every non-empty hour list, the badges never hold both
  "Heat comfort tips" and "Layered clothing recommended", and exactly one of the four
  temperature clauses occurs (as a contiguous part) in the summary sentence.
\<close>

theorem C10_badges_disjoint_one_clause:
  assumes "hours \<noteq> []"
  shows "\<not> (''Heat comfort tips'' \<in> set (badges (buildAdvice hours))
           \<and> ''Layered clothing recommended'' \<in> set (badges (buildAdvice hours)))
         \<and> (\<exists>!c. c \<in> set temperature_clauses
               \<and> sublist c (text_field (buildAdvice hours)))"
  using one_clause[OF assms]
    heat_cold_disjoint[of "avgApparent (computeStats (take 6 hours))"]
  by (simp add: badges_buildAdvice[OF assms] mem_opt split del: if_split)

theorem C10_one_clause_witness:
  "[summer_hour] \<noteq> []
   \<and> \<not> (''Heat comfort tips'' \<in> set (badges (buildAdvice [summer_hour]))
        \<and> ''Layered clothing recommended'' \<in> set (badges (buildAdvice [summer_hour])))
   \<and> (\<exists>!c. c \<in> set temperature_clauses
          \<and> sublist c (text_field (buildAdvice [summer_hour])))"
  using C10_badges_disjoint_one_clause[of "[summer_hour]"] by simp

text \<open>
  Claim C9. For every hour sequence in which each sample's \<open>apparent\<close> is a number other
  than \<open>NaN\<close>, the re-resolution inside \<open>computeStats\<close> is the identity, so
  \<open>computeStats hours\<close> is the field-wise rounding (integers everywhere, 1 decimal for the
  precipitation sum) of the unrounded statistics of \<open>sliceNextHours hours n\<close>, for every
  \<open>n \<ge> length hours\<close>.
\<close>

theorem C9_computeStats_rounds_sliceNextHours:
  assumes "\<forall>h \<in> set hours. \<not> isNaN (apparent h)"
    and "Fin (of_nat (length hours)) \<le> n"
  shows "map resolve_hour hours = map apparent hours
         \<and> computeStats hours = round_stats (snd (sliceNextHours hours n))"
  using computeStats_round[of hours n] map_resolve[of hours] assms
  by (simp add: slice0_all)

theorem C9_rounds_witness:
  "\<not> isNaN (apparent summer_hour) \<and> Fin (of_nat (length [summer_hour, summer_hour])) \<le> Fin 6
   \<and> map resolve_hour [summer_hour, summer_hour] = map apparent [summer_hour, summer_hour]
   \<and> computeStats [summer_hour, summer_hour]
       = round_stats (snd (sliceNextHours [summer_hour, summer_hour] (Fin 6)))"
proof -
  have a: "\<forall>h \<in> set [summer_hour, summer_hour]. \<not> isNaN (apparent h)"
    by (simp add: summer_hour_def)
  have b: "Fin (of_nat (length [summer_hour, summer_hour])) \<le> Fin 6"
    by (simp add: less_eq_number_def)
  show ?thesis
    using C9_computeStats_rounds_sliceNextHours[OF a b] a b by simp
qed

text \<open>
  Claim C3, as stated: for every input sequence and window size, the statistics returned
  by \<open>sliceNextHours\<close> hold integers in every field except the precipitation sum, which
  is rounded to 1 decimal. It fails for one hour with apparent temperature 20.5 and
  window size 6: \<open>sliceNextHours\<close> does not round, and \<open>minApparent\<close> is 20.5.
\<close>

theorem C3_counterexample:
  "\<not> (is_integer (minApparent (snd (sliceNextHours [summer_hour\<lparr> apparent := Fin 20.5 \<rparr>] (Fin 6))))
       \<and> is_integer (maxApparent (snd (sliceNextHours [summer_hour\<lparr> apparent := Fin 20.5 \<rparr>] (Fin 6))))
       \<and> is_integer (avgApparent (snd (sliceNextHours [summer_hour\<lparr> apparent := Fin 20.5 \<rparr>] (Fin 6))))
       \<and> is_integer (maxPOP (snd (sliceNextHours [summer_hour\<lparr> apparent := Fin 20.5 \<rparr>] (Fin 6))))
       \<and> is_integer (maxUV (snd (sliceNextHours [summer_hour\<lparr> apparent := Fin 20.5 \<rparr>] (Fin 6))))
       \<and> is_integer (maxWind (snd (sliceNextHours [summer_hour\<lparr> apparent := Fin 20.5 \<rparr>] (Fin 6))))
       \<and> one_decimal (sumPrecip (snd (sliceNextHours [summer_hour\<lparr> apparent := Fin 20.5 \<rparr>] (Fin 6)))))"
proof -
  have "minApparent (snd (sliceNextHours [summer_hour\<lparr> apparent := Fin 20.5 \<rparr>] (Fin 6)))
      = Fin 20.5"
    by (simp add: sliceNextHours_def Let_def slice0_6 jmin_def less_eq_number_def
          del: slice0.simps)
  moreover have "\<not> is_integer (Fin 20.5)" by simp
  ultimately show ?thesis by simp
qed

text \<open>
  Claim C3, amended: rounding is done by \<open>computeStats\<close>, not by \<open>sliceNextHours\<close>.
  For every hour sequence whose apparent temperatures, probabilities, UV indices and wind
  speeds are finite, and for which neither the average apparent temperature nor ten times
  the precipitation sum overflows, \<open>computeStats\<close> returns an integer in every field
  except the precipitation sum, which is an integer divided by 10.
\<close>

theorem C3_computeStats_integer_fields:
  assumes fin: "\<forall>h \<in> set hours. is_fin (apparent h) \<and> is_fin (pop h)
                  \<and> is_fin (uv h) \<and> is_fin (wind h)"
    and avg: "is_fin (avgApparent (snd (sliceNextHours hours PosInf)))"
    and sum: "is_fin (sumPrecip (snd (sliceNextHours hours PosInf)) * Fin 10)"
  shows "is_integer (minApparent (computeStats hours))
       \<and> is_integer (maxApparent (computeStats hours))
       \<and> is_integer (avgApparent (computeStats hours))
       \<and> is_integer (maxPOP (computeStats hours))
       \<and> is_integer (maxUV (computeStats hours))
       \<and> is_integer (maxWind (computeStats hours))
       \<and> one_decimal (sumPrecip (computeStats hours))"
proof (cases "hours = []")
  case True
  have "Fin 0 = Fin (of_int 0) / Fin 10" by (simp add: number_ops dbl_0)
  then have "one_decimal (Fin 0)" unfolding one_decimal_def by blast
  with True show ?thesis by (simp add: computeStats_def zero_stats_def)
next
  case False
  have nn: "\<forall>h \<in> set (slice0 hours PosInf). \<not> isNaN (apparent h)"
    using fin by (simp add: is_fin_not_NaN)
  have cs: "computeStats hours = round_stats (snd (sliceNextHours hours PosInf))"
    using computeStats_round[OF nn] by simp
  have u: "snd (sliceNextHours hours PosInf) =
     \<lparr> minApparent = Math_min (map apparent hours),
       maxApparent = Math_max (map apparent hours),
       avgApparent = reduce_sum (map apparent hours) / num_length (map apparent hours),
       maxPOP = Math_max (map pop hours),
       sumPrecip = reduce_sum (map precip hours),
       maxUV = Math_max (map uv hours),
       maxWind = Math_max (map wind hours) \<rparr>"
    using False by (simp add: sliceNextHours_def Let_def)
  have "is_fin (Math_min (map apparent hours))" "is_fin (Math_max (map apparent hours))"
    "is_fin (Math_max (map pop hours))" "is_fin (Math_max (map uv hours))"
    "is_fin (Math_max (map wind hours))"
    using False fin by (simp_all add: Math_min_fin Math_max_fin)
  then show ?thesis
    using avg sum unfolding cs round_stats_def u
    by (simp add: is_integer_round one_decimal_round)
qed

theorem C3_integer_fields_witness:
  "is_fin (apparent summer_hour) \<and> is_fin (pop summer_hour) \<and> is_fin (uv summer_hour)
   \<and> is_fin (wind summer_hour)
   \<and> computeStats [summer_hour, summer_hour] =
     \<lparr> minApparent = Fin 35, maxApparent = Fin 35, avgApparent = Fin 35, maxPOP = Fin 10,
       sumPrecip = Fin 0, maxUV = Fin 9, maxWind = Fin 15 \<rparr>
   \<and> is_integer (avgApparent (computeStats [summer_hour, summer_hour]))
   \<and> one_decimal (sumPrecip (computeStats [summer_hour, summer_hour]))"
proof -
  have f: "\<forall>h \<in> set [summer_hour, summer_hour]. is_fin (apparent h) \<and> is_fin (pop h)
                  \<and> is_fin (uv h) \<and> is_fin (wind h)"
    by (simp add: summer_hour_def)
  have a: "is_fin (avgApparent (snd (sliceNextHours [summer_hour, summer_hour] PosInf)))"
    by (simp add: summer2_raw)
  have s: "is_fin (sumPrecip (snd (sliceNextHours [summer_hour, summer_hour] PosInf)) * Fin 10)"
    by (simp add: summer2_raw number_ops dbl_0)
  have nn: "\<forall>h \<in> set (slice0 [summer_hour, summer_hour] PosInf). \<not> isNaN (apparent h)"
    by (simp add: summer_hour_def)
  have v: "computeStats [summer_hour, summer_hour] =
     \<lparr> minApparent = Fin 35, maxApparent = Fin 35, avgApparent = Fin 35, maxPOP = Fin 10,
       sumPrecip = Fin 0, maxUV = Fin 9, maxWind = Fin 15 \<rparr>"
    using computeStats_round[OF nn]
    by (simp add: summer2_raw round_stats_def rounded_to_1_decimal_def number_ops dbl_0)
  show ?thesis
    using C3_computeStats_integer_fields[OF f a s] f v by simp
qed

text \<open>
  Claim C2. For every non-empty input, the threshold comparisons of \<open>buildAdvice\<close>
  (\<open>avgApparent > 25\<close>, \<open>avgApparent < 0\<close>, \<open>maxUV \<ge> 6\<close>, \<open>maxWind \<ge> 10\<close>) are to be made
  against the unrounded aggregates of the 6-hour window, not against the rounded
  statistics exposed for display. The code does otherwise: \<open>buildAdvice\<close> takes its
  statistics from \<open>computeStats\<close>, which rounds every field, and compares the rounded
  values. For one hour with apparent temperature 25.25 the unrounded average 25.25
  exceeds 25, yet "Heat comfort tips" is withheld, the average being rounded to 25. For
  one hour with UV index 5.5 the unrounded maximum is below 6, yet "Sunscreen
  recommended" is awarded, the maximum being rounded to 6.
\<close>

theorem C2_buildAdvice_compares_rounded_statistics:
  "Fin 25 < avgApparent (snd (sliceNextHours [summer_hour\<lparr> apparent := Fin (101 / 4) \<rparr>] (Fin 6)))
   \<and> ''Heat comfort tips'' \<notin> set (badges (buildAdvice [summer_hour\<lparr> apparent := Fin (101 / 4) \<rparr>]))
   \<and> \<not> Fin 6 \<le> maxUV (snd (sliceNextHours [summer_hour\<lparr> uv := Fin (11 / 2) \<rparr>] (Fin 6)))
   \<and> ''Sunscreen recommended'' \<in> set (badges (buildAdvice [summer_hour\<lparr> uv := Fin (11 / 2) \<rparr>]))"
proof -
  have n: "[summer_hour\<lparr> apparent := Fin (101 / 4) \<rparr>] \<noteq> []" by simp
  have v: "\<forall>h \<in> set (take 6 [summer_hour\<lparr> apparent := Fin (101 / 4) \<rparr>]). \<not> isNaN (apparent h)"
    by simp
  have "(''Heat comfort tips'' \<in> set (badges (buildAdvice [summer_hour\<lparr> apparent := Fin (101 / 4) \<rparr>])))
      = (Fin 25 < avgApparent (computeStats (take 6 [summer_hour\<lparr> apparent := Fin (101 / 4) \<rparr>])))"
    by (simp add: badges_buildAdvice[OF n] mem_opt split del: if_split)
  then have a: "''Heat comfort tips'' \<notin> set (badges (buildAdvice [summer_hour\<lparr> apparent := Fin (101 / 4) \<rparr>]))"
    unfolding computeStats_take6[OF v] warm_raw
    by (simp add: round_stats_def less_number_def)
  have b: "Fin 25 < avgApparent (snd (sliceNextHours [summer_hour\<lparr> apparent := Fin (101 / 4) \<rparr>] (Fin 6)))"
    by (simp add: warm_raw less_number_def)
  have n': "[summer_hour\<lparr> uv := Fin (11 / 2) \<rparr>] \<noteq> []" by simp
  have v': "\<forall>h \<in> set (take 6 [summer_hour\<lparr> uv := Fin (11 / 2) \<rparr>]). \<not> isNaN (apparent h)"
    by (simp add: summer_hour_def)
  have "(''Sunscreen recommended'' \<in> set (badges (buildAdvice [summer_hour\<lparr> uv := Fin (11 / 2) \<rparr>])))
      = (Fin 6 \<le> maxUV (computeStats (take 6 [summer_hour\<lparr> uv := Fin (11 / 2) \<rparr>])))"
    by (simp add: badges_buildAdvice[OF n'] mem_opt split del: if_split)
  then have c: "''Sunscreen recommended'' \<in> set (badges (buildAdvice [summer_hour\<lparr> uv := Fin (11 / 2) \<rparr>]))"
    unfolding computeStats_take6[OF v'] mild_uv_raw
    by (simp add: round_stats_def less_eq_number_def)
  have d: "\<not> Fin 6 \<le> maxUV (snd (sliceNextHours [summer_hour\<lparr> uv := Fin (11 / 2) \<rparr>] (Fin 6)))"
    by (simp add: mild_uv_raw less_eq_number_def)
  from a b c d show ?thesis by blast
qed




end
